theory Spec2Isabelle
  imports Main
begin

section \<open>Task-status polling of the task detail view\<close>

text \<open>
  The development follows the script of the detail view in
  \<^verbatim>\<open>frontend/src/views/Tasks.vue\<close> (\<^verbatim>\<open>loadRecord\<close>, the three action
  handlers, \<^verbatim>\<open>startPolling\<close>, \<^verbatim>\<open>stopPolling\<close> and the two helpers for the flag in
  \<^verbatim>\<open>localStorage\<close>) and the interfaces of \<^verbatim>\<open>frontend/src/api/task.ts\<close>.

  The view is single threaded: a piece of script runs from one \<^verbatim>\<open>await\<close> to the
  next without interruption.  Each function below is such a piece, or a whole
  \<^verbatim>\<open>async\<close> function whose awaited answers are passed in as arguments; the
  state of the view, of the window's interval timers and of \<^verbatim>\<open>localStorage\<close> is
  passed explicitly.
\<close>

subsection \<open>JavaScript values\<close>

text \<open>
  An optional string field (\<^verbatim>\<open>video_url?: string\<close>) is \<open>None\<close> when it is
  missing.  In a condition JavaScript takes a missing and an empty string as false.
\<close>

definition truthy :: "string option \<Rightarrow> bool" where
  "truthy v = (case v of None \<Rightarrow> False | Some s \<Rightarrow> s \<noteq> [])"

text \<open>Decimal rendering of a number inside a template literal.\<close>

definition digit_char :: "nat \<Rightarrow> char" where
  "digit_char d = char_of (48 + d)"

function show_nat :: "nat \<Rightarrow> string" where
  "show_nat n = (if n < 10 then [digit_char n] else show_nat (n div 10) @ [digit_char (n mod 10)])"
  by pat_completeness auto
termination
  by (relation "measure (\<lambda>n. n)") auto

declare show_nat.simps [simp del]

definition show_int :: "int \<Rightarrow> string" where
  "show_int i = (if i < 0 then CHR ''-'' # show_nat (nat (- i)) else show_nat (nat i))"

subsection \<open>Data of the REST interface\<close>

text \<open>
  \<^verbatim>\<open>interface Record\<close> of \<^verbatim>\<open>api/task.ts\<close>; the field \<^verbatim>\<open>id\<close> is \<open>task_id\<close>
  here.  The answer of \<^verbatim>\<open>getTaskStatus\<close> is declared as \<^verbatim>\<open>TaskStatus\<close>, which
  has the fields of the first group and none of the four signed locators; the running
  script receives whatever object the server sends, so the same shape serves for
  both.
\<close>

record task_record =
  task_id :: int
  url :: string
  status :: string
  progress :: int
  video_path :: "string option"
  transcription :: "string option"
  summary :: "string option"
  video_url :: "string option"
  audio_url :: "string option"
  transcription_url :: "string option"
  summary_url :: "string option"

text \<open>\<^verbatim>\<open>interface VideoSummary\<close>, the fields the view reads.\<close>

record video_summary =
  summary_id :: int
  summary_name :: string
  summary_content :: string

text \<open>
  The body of an answer, \<^verbatim>\<open>{ success, data }\<close>.  A missing \<^verbatim>\<open>success\<close> is
  false in a condition, as \<^verbatim>\<open>false\<close> is; a missing or null \<^verbatim>\<open>data\<close> is
  \<open>None\<close>.
\<close>

record 'a response =
  success :: bool
  data :: "'a option"

text \<open>
  A rejected request carries the error; the handlers look at
  \<^verbatim>\<open>error.response?.data?.detail\<close> and \<^verbatim>\<open>error.message\<close>.
\<close>

record http_error =
  error_detail :: "string option"
  error_message :: "string option"

datatype 'a settled = Rejected http_error | Resolved "'a response"

text \<open>The payload the script works on: present only under \<^verbatim>\<open>response.success && response.data\<close>.\<close>

definition payload :: "'a response \<Rightarrow> 'a option" where
  "payload response = (if success response then data response else None)"

subsection \<open>Notices and the console\<close>

text \<open>
  The texts of the notices are Chinese literals in the source; each literal is a
  constructor here.  \<open>TranscribeDone\<close> and \<open>TranscribeFailed\<close> are the two
  literals that report on the transcription, \<open>SummaryDone\<close> and
  \<open>SummaryFailed\<close> the two that report on the summary.  \<open>Verbatim\<close> is a text
  taken from an error object.
\<close>

datatype level = Success | Info | Error

datatype wording =
    TranscribeDone | SummaryDone | TranscribeFailed | SummaryFailed
  | Retranscribing | RetranscribeFailed
  | Resummarizing | GenerateFailed
  | RetrySubmitted | RetryFailed
  | OperationFailed | LoadFailed
  | Verbatim string

datatype console_entry = PollingError | LoadRecordError | LoadSummariesError

subsection \<open>State\<close>

text \<open>The object literal \<^verbatim>\<open>preservedUrls\<close> that \<^verbatim>\<open>startPolling\<close> builds.\<close>

record preservedUrls =
  preserved_video_url :: "string option"
  preserved_audio_url :: "string option"
  preserved_transcription_url :: "string option"

text \<open>
  An entry of the window's table of interval timers: the variables the callback has
  captured (\<^verbatim>\<open>recordId\<close>, \<^verbatim>\<open>preservedUrls\<close>) and the delay in milliseconds.
\<close>

record interval_timer =
  recordId :: int
  preserved :: preservedUrls
  delay :: nat

text \<open>
  The refs of the view (\<^verbatim>\<open>record.value\<close> is \<open>record_value\<close>), the module
  variable \<^verbatim>\<open>pollingInterval\<close>, the route parameter, and what the script reaches in
  the browser: the interval timers (\<open>timer_seq\<close> is the last handle issued; handles
  are positive and never reused), \<^verbatim>\<open>localStorage\<close> (\<open>None\<close> when every access
  throws), the notices shown and the console.
\<close>

record view =
  record_value :: "task_record option"
  stableVideoUrl :: string
  summaries :: "video_summary list"
  activeSummaryKey :: string
  loading :: bool
  retryLoading :: bool
  retranscribeLoading :: bool
  route_recordId :: int
  pollingInterval :: "nat option"
  timers :: "nat \<rightharpoonup> interval_timer"
  timer_seq :: nat
  localStorage :: "(string \<rightharpoonup> string) option"
  notices :: "(level \<times> wording) list"
  console :: "console_entry list"

definition notify :: "level \<Rightarrow> wording \<Rightarrow> view \<Rightarrow> view" where
  "notify l w st = st\<lparr>notices := notices st @ [(l, w)]\<rparr>"

definition console_error :: "console_entry \<Rightarrow> view \<Rightarrow> view" where
  "console_error e st = st\<lparr>console := console st @ [e]\<rparr>"

subsection \<open>The flag in localStorage\<close>

definition getPollingKey :: "int \<Rightarrow> string" where
  "getPollingKey taskId = ''summarizing_task_'' @ show_int taskId"

definition setPollingFlag :: "int \<Rightarrow> bool \<Rightarrow> view \<Rightarrow> view" where
  "setPollingFlag taskId v st =
     (case localStorage st of
        None \<Rightarrow> st
      | Some m \<Rightarrow>
          if v then st\<lparr>localStorage := Some (m(getPollingKey taskId \<mapsto> ''1''))\<rparr>
          else st\<lparr>localStorage := Some (m(getPollingKey taskId := None))\<rparr>)"

definition getPollingFlag :: "int \<Rightarrow> view \<Rightarrow> bool" where
  "getPollingFlag taskId st =
     (case localStorage st of
        None \<Rightarrow> False
      | Some m \<Rightarrow> truthy (m (getPollingKey taskId)))"

subsection \<open>Starting and stopping the poller\<close>

definition clearInterval :: "nat \<Rightarrow> view \<Rightarrow> view" where
  "clearInterval h st = st\<lparr>timers := (timers st)(h := None)\<rparr>"

text \<open>\<^verbatim>\<open>if (pollingInterval)\<close>: a handle is a number, and zero counts as false.\<close>

definition handle_set :: "nat option \<Rightarrow> bool" where
  "handle_set v = (case v of None \<Rightarrow> False | Some h \<Rightarrow> h \<noteq> 0)"

definition snapshotUrls :: "view \<Rightarrow> preservedUrls" where
  "snapshotUrls st =
     \<lparr> preserved_video_url =
         (if stableVideoUrl st \<noteq> [] then Some (stableVideoUrl st)
          else (case record_value st of None \<Rightarrow> None | Some r \<Rightarrow> video_url r)),
       preserved_audio_url =
         (case record_value st of None \<Rightarrow> None | Some r \<Rightarrow> audio_url r),
       preserved_transcription_url =
         (case record_value st of None \<Rightarrow> None | Some r \<Rightarrow> transcription_url r) \<rparr>"

definition startPolling :: "int \<Rightarrow> view \<Rightarrow> view" where
  "startPolling rid st =
     (let st1 = setPollingFlag rid True st;
          st2 = (case pollingInterval st1 of
                   None \<Rightarrow> st1
                 | Some h \<Rightarrow> if h \<noteq> 0 then clearInterval h st1 else st1);
          h' = Suc (timer_seq st2)
      in st2\<lparr> timers := (timers st2)(h' \<mapsto>
                  \<lparr> recordId = rid, preserved = snapshotUrls st2, delay = 2000 \<rparr>),
               timer_seq := h',
               pollingInterval := Some h' \<rparr>)"

definition stopPolling :: "view \<Rightarrow> view" where
  "stopPolling st =
     (case pollingInterval st of
        None \<Rightarrow> st
      | Some h \<Rightarrow> if h \<noteq> 0 then (clearInterval h st)\<lparr>pollingInterval := None\<rparr> else st)"

subsection \<open>The update of one tick\<close>

text \<open>
  The block under \<^verbatim>\<open>if (record.value)\<close> of the callback, as a function of what it
  writes: the held record and \<^verbatim>\<open>stableVideoUrl\<close>.
\<close>

definition reconcile ::
  "task_record \<times> string \<Rightarrow> task_record \<Rightarrow> preservedUrls \<Rightarrow> task_record \<times> string" where
  "reconcile current fetched p =
     (let r1 = (fst current)\<lparr> status := status fetched,
                               summary := summary fetched,
                               transcription := transcription fetched,
                               progress := progress fetched \<rparr>;
          stable = (case preserved_video_url p of
                      None \<Rightarrow> snd current
                    | Some v \<Rightarrow> if v \<noteq> [] then v else snd current);
          r2 = (if truthy (preserved_audio_url p)
                then r1\<lparr>audio_url := preserved_audio_url p\<rparr> else r1);
          r3 = (if truthy (preserved_transcription_url p)
                then r2\<lparr>transcription_url := preserved_transcription_url p\<rparr> else r2)
      in (r3, stable))"

text \<open>
  What the callback awaits last: nothing, \<^verbatim>\<open>loadRecord()\<close> or
  \<^verbatim>\<open>loadSummaries()\<close>.
\<close>

datatype followup = Finished | AwaitLoadRecord | AwaitLoadSummaries

text \<open>
  The callback of a timer from the moment its \<^verbatim>\<open>getTaskStatus\<close> request has
  settled up to its last \<^verbatim>\<open>await\<close>.
\<close>

definition pollCallback :: "interval_timer \<Rightarrow> task_record settled \<Rightarrow> view \<Rightarrow> view \<times> followup" where
  "pollCallback c res st =
     (case res of
        Rejected e \<Rightarrow> (console_error PollingError st, Finished)
      | Resolved response \<Rightarrow>
          (case payload response of
             None \<Rightarrow> (st, Finished)
           | Some d \<Rightarrow>
               let previousStatus = (case record_value st of None \<Rightarrow> [] | Some r \<Rightarrow> status r);
                   st1 = (case record_value st of
                            None \<Rightarrow> st
                          | Some r \<Rightarrow>
                              let n = reconcile (r, stableVideoUrl st) d (preserved c)
                              in st\<lparr>record_value := Some (fst n), stableVideoUrl := snd n\<rparr>)
               in if status d = ''completed'' \<or> status d = ''failed'' then
                    let st2 = stopPolling st1;
                        st3 = setPollingFlag (recordId c) False st2
                    in if status d = ''completed'' then
                         if previousStatus = ''transcribing''
                         then (notify Success TranscribeDone st3, AwaitLoadRecord)
                         else (notify Success SummaryDone st3, AwaitLoadSummaries)
                       else
                         if previousStatus = ''transcribing''
                         then (notify Error TranscribeFailed st3, Finished)
                         else (notify Error SummaryFailed st3, Finished)
                  else (st1, Finished)))"

subsection \<open>Loading the record and its summaries\<close>

text \<open>
  \<^verbatim>\<open>loadSummaries\<close>, given how its \<^verbatim>\<open>getTaskSummaries\<close> request settles.  Without
  a held record it returns before it asks.  An empty array is an object, so it passes
  the test \<^verbatim>\<open>response.success && response.data\<close>.
\<close>

definition loadSummaries :: "video_summary list settled \<Rightarrow> view \<Rightarrow> view" where
  "loadSummaries res st =
     (case record_value st of
        None \<Rightarrow> st
      | Some r \<Rightarrow>
          (case res of
             Rejected e \<Rightarrow> console_error LoadSummariesError st
           | Resolved response \<Rightarrow>
               (case payload response of
                  None \<Rightarrow> st
                | Some ds \<Rightarrow>
                    let st1 = st\<lparr>summaries := ds\<rparr>
                    in (case ds of
                          [] \<Rightarrow> st1
                        | s # rest \<Rightarrow>
                            if activeSummaryKey st1 = []
                            then st1\<lparr>activeSummaryKey := show_int (summary_id s)\<rparr>
                            else st1))))"

definition processingStatuses :: "string list" where
  "processingStatuses =
     [''pending'', ''downloading'', ''extracting_audio'', ''transcribing'', ''summarizing'']"

text \<open>
  The decision that follows a successful fetch in \<^verbatim>\<open>loadRecord\<close>; the source has the
  same lines on its first path and on its fallback path.
\<close>

definition shouldPollByStatus :: "view \<Rightarrow> bool" where
  "shouldPollByStatus st =
     (case record_value st of None \<Rightarrow> False | Some r \<Rightarrow> status r \<in> set processingStatuses)"

definition pollIfDue :: "int \<Rightarrow> view \<Rightarrow> view" where
  "pollIfDue rid st =
     (if shouldPollByStatus st \<or> getPollingFlag rid st then startPolling rid st else st)"

text \<open>How the requests of one run of \<^verbatim>\<open>loadRecord\<close> settle.\<close>

record answers =
  refreshUrls_answer :: "task_record settled"
  getHistoryDetail_answer :: "task_record settled"
  getTaskSummaries_answer :: "video_summary list settled"

text \<open>The \<^verbatim>\<open>catch\<close> block of \<^verbatim>\<open>loadRecord\<close>, with the \<^verbatim>\<open>finally\<close> that follows it.\<close>

definition loadRecord_fallback :: "answers \<Rightarrow> view \<Rightarrow> view" where
  "loadRecord_fallback w st0 =
     (let st = console_error LoadRecordError st0
      in (case getHistoryDetail_answer w of
            Rejected fallbackError \<Rightarrow>
              (notify Error
                 (case error_message fallbackError of
                    None \<Rightarrow> LoadFailed
                  | Some m \<Rightarrow> if m \<noteq> [] then Verbatim m else LoadFailed) st)
              \<lparr>loading := False\<rparr>
          | Resolved response \<Rightarrow>
              if success response then
                let st1 = st\<lparr>record_value := data response\<rparr>;
                    st2 = loadSummaries (getTaskSummaries_answer w) st1
                in (pollIfDue (route_recordId st2) st2)\<lparr>loading := False\<rparr>
              else st\<lparr>loading := False\<rparr>))"

text \<open>
  \<^verbatim>\<open>loadRecord\<close>.  With \<^verbatim>\<open>success\<close> set and no \<^verbatim>\<open>data\<close>, the read of
  \<^verbatim>\<open>response.data.video_url\<close> throws after the assignment to \<^verbatim>\<open>record.value\<close>, and
  the \<^verbatim>\<open>catch\<close> block takes over.
\<close>

definition loadRecord :: "answers \<Rightarrow> view \<Rightarrow> view" where
  "loadRecord w st0 =
     (let st = st0\<lparr>loading := True\<rparr>
      in (case refreshUrls_answer w of
            Rejected e \<Rightarrow> loadRecord_fallback w st
          | Resolved response \<Rightarrow>
              if success response then
                (case data response of
                   None \<Rightarrow> loadRecord_fallback w (st\<lparr>record_value := None\<rparr>)
                 | Some d \<Rightarrow>
                     let st1 = st\<lparr> record_value := Some d,
                                   stableVideoUrl :=
                                     (case video_url d of
                                        None \<Rightarrow> stableVideoUrl st
                                      | Some v \<Rightarrow> if v \<noteq> [] then v else stableVideoUrl st) \<rparr>;
                         st2 = loadSummaries (getTaskSummaries_answer w) st1
                     in (pollIfDue (route_recordId st2) st2)\<lparr>loading := False\<rparr>)
              else st\<lparr>loading := False\<rparr>))"

subsection \<open>The action handlers\<close>

text \<open>\<^verbatim>\<open>error.response?.data?.detail || error.message || <literal>\<close>\<close>

definition error_wording :: "http_error \<Rightarrow> wording" where
  "error_wording e =
     (if truthy (error_detail e) then Verbatim (the (error_detail e))
      else if truthy (error_message e) then Verbatim (the (error_message e))
      else OperationFailed)"

text \<open>
  Each handler is given how its request settles.  The prompt that
  \<^verbatim>\<open>handleResummarize\<close> picks goes into the request only.
\<close>

definition handleRetranscribe :: "task_record settled \<Rightarrow> view \<Rightarrow> view" where
  "handleRetranscribe res st0 =
     (case record_value st0 of
        None \<Rightarrow> st0
      | Some r0 \<Rightarrow>
          let st = st0\<lparr>retranscribeLoading := True\<rparr>;
              rid = route_recordId st
          in (case res of
                Rejected e \<Rightarrow> notify Error (error_wording e) st
              | Resolved response \<Rightarrow>
                  if success response then
                    let st1 = notify Info Retranscribing st;
                        st2 = (case record_value st1 of
                                 None \<Rightarrow> st1
                               | Some r \<Rightarrow>
                                   st1\<lparr>record_value :=
                                         Some (r\<lparr>status := ''transcribing'', progress := 60\<rparr>)\<rparr>);
                        st3 = setPollingFlag rid True st2
                    in startPolling rid st3
                  else notify Error RetranscribeFailed st)
             \<lparr>retranscribeLoading := False\<rparr>)"

definition handleResummarize :: "task_record settled \<Rightarrow> view \<Rightarrow> view" where
  "handleResummarize res st0 =
     (case record_value st0 of
        None \<Rightarrow> st0
      | Some r0 \<Rightarrow>
          let st = st0\<lparr>loading := True\<rparr>;
              rid = route_recordId st
          in (case res of
                Rejected e \<Rightarrow> notify Error (error_wording e) st
              | Resolved response \<Rightarrow>
                  if success response then
                    let st1 = notify Info Resummarizing st;
                        st2 = (case record_value st1 of
                                 None \<Rightarrow> st1
                               | Some r \<Rightarrow>
                                   st1\<lparr>record_value :=
                                         Some (r\<lparr>status := ''summarizing'', progress := 90\<rparr>)\<rparr>);
                        st3 = setPollingFlag rid True st2
                    in startPolling rid st3
                  else notify Error GenerateFailed st)
             \<lparr>loading := False\<rparr>)"

definition handleRetry :: "task_record settled \<Rightarrow> view \<Rightarrow> view" where
  "handleRetry res st0 =
     (case record_value st0 of
        None \<Rightarrow> st0
      | Some r0 \<Rightarrow>
          let st = st0\<lparr>retryLoading := True\<rparr>
          in (case res of
                Rejected e \<Rightarrow> notify Error (error_wording e) st
              | Resolved response \<Rightarrow>
                  (case payload response of
                     Some d \<Rightarrow> notify Success RetrySubmitted (st\<lparr>record_value := Some d\<rparr>)
                   | None \<Rightarrow> notify Error RetryFailed st))
             \<lparr>retryLoading := False\<rparr>)"

subsection \<open>A whole tick, and the view as it is mounted\<close>

text \<open>
  The callback of a timer from the moment its \<^verbatim>\<open>getTaskStatus\<close> request has settled
  to its end, the awaited reload included.  After the \<^verbatim>\<open>await\<close> the source looks
  neither at the window's timers nor at \<^verbatim>\<open>pollingInterval\<close>: the callback of a request
  that was sent before its timer was cleared runs like any other.
\<close>

definition pollSettled :: "interval_timer \<Rightarrow> task_record settled \<Rightarrow> answers \<Rightarrow> view \<Rightarrow> view" where
  "pollSettled c res w st =
     (case pollCallback c res st of
        (st', Finished) \<Rightarrow> st'
      | (st', AwaitLoadRecord) \<Rightarrow> loadRecord w st'
      | (st', AwaitLoadSummaries) \<Rightarrow> loadSummaries (getTaskSummaries_answer w) st')"

text \<open>
  A tick whose request settles before anything else happens.  The timer with handle
  \<open>h\<close> fires, which it does only while the window holds it, and its callback runs to
  the end.  Ticks whose requests stay open while other things happen are events of a
  run, below.
\<close>

definition pollTick :: "nat \<Rightarrow> task_record settled \<Rightarrow> answers \<Rightarrow> view \<Rightarrow> view" where
  "pollTick h res w st =
     (case timers st h of
        None \<Rightarrow> st
      | Some c \<Rightarrow> pollSettled c res w st)"

text \<open>The refs as the script initialises them, before \<^verbatim>\<open>onMounted\<close> runs.\<close>

definition initial_view :: "int \<Rightarrow> (string \<rightharpoonup> string) option \<Rightarrow> view" where
  "initial_view rid storage =
     \<lparr> record_value = None, stableVideoUrl = [], summaries = [], activeSummaryKey = [],
       loading = False, retryLoading = False, retranscribeLoading = False,
       route_recordId = rid, pollingInterval = None, timers = Map.empty, timer_seq = 0,
       localStorage = storage, notices = [], console = [] \<rparr>"

text \<open>
  The window holds no timer of this view but the one whose handle is in
  \<^verbatim>\<open>pollingInterval\<close>, and every handle was issued.
\<close>

definition one_timer :: "view \<Rightarrow> bool" where
  "one_timer st =
     (dom (timers st) = set_option (pollingInterval st) \<and>
      (\<forall>h \<in> dom (timers st). 0 < h \<and> h \<le> timer_seq st))"

text \<open>A terminal status ends the polling.\<close>

definition terminal :: "string \<Rightarrow> bool" where
  "terminal s = (s = ''completed'' \<or> s = ''failed'')"


subsection \<open>Runs of the view\<close>

text \<open>
  The view together with the \<^verbatim>\<open>getTaskStatus\<close> requests that callbacks of its timers
  have sent and that have not settled yet; each is kept with the variables its callback
  has captured.
\<close>

record browser =
  page :: view
  open_requests :: "interval_timer list"

text \<open>
  What happens to the poller of one view: the view is mounted (\<^verbatim>\<open>onMounted\<close> calls
  \<^verbatim>\<open>loadRecord\<close>), a timer fires and its callback sends its request, an open request
  settles and its callback runs to the end, the user clicks one of the three actions, the
  view is unmounted (\<^verbatim>\<open>onUnmounted\<close> calls \<^verbatim>\<open>stopPolling\<close>).  Each event carries how
  its requests settle.  Between the firing of a timer and the settling of its request
  anything may happen: the timer may fire again, and it may be cleared.  Of the two
  handlers of the view that are left out, \<^verbatim>\<open>handleRefreshUrls\<close> does not touch the
  timers and \<^verbatim>\<open>handleCustomPromptResummarize\<close> does so through \<^verbatim>\<open>startPolling\<close>.
\<close>

datatype event =
    Mounted answers
  | TimerFired nat
  | StatusSettled nat "task_record settled" answers
  | RetranscribeClicked "task_record settled"
  | ResummarizeClicked "task_record settled"
  | RetryClicked "task_record settled"
  | Unmounted

text \<open>A timer fires only while the window holds it; its callback sends the request.\<close>

definition fire :: "nat \<Rightarrow> browser \<Rightarrow> browser" where
  "fire h b =
     (case timers (page b) h of
        None \<Rightarrow> b
      | Some c \<Rightarrow> b\<lparr>open_requests := open_requests b @ [c]\<rparr>)"

text \<open>The open request number \<open>i\<close> settles, and its callback runs whatever has happened since.\<close>

definition settle :: "nat \<Rightarrow> task_record settled \<Rightarrow> answers \<Rightarrow> browser \<Rightarrow> browser" where
  "settle i res w b =
     (if i < length (open_requests b)
      then \<lparr> page = pollSettled (open_requests b ! i) res w (page b),
             open_requests = take i (open_requests b) @ drop (Suc i) (open_requests b) \<rparr>
      else b)"

fun step :: "event \<Rightarrow> browser \<Rightarrow> browser" where
  "step (Mounted w) b = b\<lparr>page := loadRecord w (page b)\<rparr>"
| "step (TimerFired h) b = fire h b"
| "step (StatusSettled i res w) b = settle i res w b"
| "step (RetranscribeClicked res) b = b\<lparr>page := handleRetranscribe res (page b)\<rparr>"
| "step (ResummarizeClicked res) b = b\<lparr>page := handleResummarize res (page b)\<rparr>"
| "step (RetryClicked res) b = b\<lparr>page := handleRetry res (page b)\<rparr>"
| "step Unmounted b = b\<lparr>page := stopPolling (page b)\<rparr>"

fun run :: "event list \<Rightarrow> browser \<Rightarrow> browser" where
  "run [] b = b"
| "run (e # es) b = run es (step e b)"

text \<open>The timer with handle \<open>h\<close> was issued and is no longer in the window's table.\<close>

definition cancelled :: "nat \<Rightarrow> view \<Rightarrow> bool" where
  "cancelled h st = (h \<le> timer_seq st \<and> timers st h = None)"

text \<open>The timer with handle \<open>h\<close>, if it is still in the table, is the entry \<open>c\<close>.\<close>

definition snapshot_kept :: "nat \<Rightarrow> interval_timer \<Rightarrow> view \<Rightarrow> bool" where
  "snapshot_kept h c st = (h \<le> timer_seq st \<and> (timers st h = None \<or> timers st h = Some c))"

subsection \<open>Sample data\<close>

text \<open>A record that is being transcribed: its video has a signed locator, its audio has none.\<close>

definition sample_record :: task_record where
  "sample_record =
     \<lparr> task_id = 42, url = ''https://example.org/v/1'', status = ''transcribing'',
       progress = 60, video_path = None, transcription = None, summary = None,
       video_url = Some ''https://s3.example.org/v'', audio_url = None,
       transcription_url = None, summary_url = None \<rparr>"

text \<open>A view that holds the sample record and has started its poller once.\<close>

definition sample_view :: view where
  "sample_view =
     startPolling 42
       ((initial_view 42 (Some Map.empty))
          \<lparr> record_value := Some sample_record,
            stableVideoUrl := ''https://s3.example.org/v'' \<rparr>)"

text \<open>The timer that this start has put into the window's table under handle 1.\<close>

definition sample_timer :: interval_timer where
  "sample_timer =
     \<lparr> recordId = 42,
       preserved = \<lparr> preserved_video_url = Some ''https://s3.example.org/v'',
                     preserved_audio_url = None,
                     preserved_transcription_url = None \<rparr>,
       delay = 2000 \<rparr>"

text \<open>A view without a record whose poller runs.\<close>

definition sample_empty_view :: view where
  "sample_empty_view = startPolling 42 (initial_view 42 (Some Map.empty))"

text \<open>A well-formed answer with the given status; it carries a locator for the audio.\<close>

definition sample_response :: "string \<Rightarrow> task_record response" where
  "sample_response s =
     \<lparr> success = True,
       data = Some (sample_record\<lparr> status := s, progress := 100,
                                   audio_url := Some ''https://s3.example.org/a'' \<rparr>) \<rparr>"

definition sample_answers :: answers where
  "sample_answers =
     \<lparr> refreshUrls_answer = Resolved (sample_response ''completed''),
       getHistoryDetail_answer = Resolved (sample_response ''completed''),
       getTaskSummaries_answer = Resolved \<lparr> success = True, data = Some [] \<rparr> \<rparr>"

text \<open>A view that holds a failed task and has no poller.\<close>

definition sample_failed_view :: view where
  "sample_failed_view =
     (initial_view 42 (Some Map.empty))
       \<lparr> record_value := Some (sample_record\<lparr>status := ''failed''\<rparr>) \<rparr>"

section \<open>Properties\<close>

subsection \<open>What each operation leaves alone\<close>

lemma setPollingFlag_fields [simp]:
  "record_value (setPollingFlag rid v st) = record_value st"
  "stableVideoUrl (setPollingFlag rid v st) = stableVideoUrl st"
  "timers (setPollingFlag rid v st) = timers st"
  "timer_seq (setPollingFlag rid v st) = timer_seq st"
  "pollingInterval (setPollingFlag rid v st) = pollingInterval st"
  "notices (setPollingFlag rid v st) = notices st"
  "route_recordId (setPollingFlag rid v st) = route_recordId st"
  by (simp_all add: setPollingFlag_def split: option.splits)

lemma notify_fields [simp]:
  "record_value (notify l w st) = record_value st"
  "stableVideoUrl (notify l w st) = stableVideoUrl st"
  "timers (notify l w st) = timers st"
  "timer_seq (notify l w st) = timer_seq st"
  "pollingInterval (notify l w st) = pollingInterval st"
  "localStorage (notify l w st) = localStorage st"
  "notices (notify l w st) = notices st @ [(l, w)]"
  "route_recordId (notify l w st) = route_recordId st"
  by (simp_all add: notify_def)

lemma console_error_fields [simp]:
  "record_value (console_error e st) = record_value st"
  "stableVideoUrl (console_error e st) = stableVideoUrl st"
  "timers (console_error e st) = timers st"
  "timer_seq (console_error e st) = timer_seq st"
  "pollingInterval (console_error e st) = pollingInterval st"
  "localStorage (console_error e st) = localStorage st"
  "notices (console_error e st) = notices st"
  "route_recordId (console_error e st) = route_recordId st"
  by (simp_all add: console_error_def)

lemma stopPolling_fields [simp]:
  "record_value (stopPolling st) = record_value st"
  "stableVideoUrl (stopPolling st) = stableVideoUrl st"
  "timer_seq (stopPolling st) = timer_seq st"
  "localStorage (stopPolling st) = localStorage st"
  "notices (stopPolling st) = notices st"
  "route_recordId (stopPolling st) = route_recordId st"
  by (simp_all add: stopPolling_def clearInterval_def split: option.splits)

lemma startPolling_fields [simp]:
  "record_value (startPolling rid st) = record_value st"
  "stableVideoUrl (startPolling rid st) = stableVideoUrl st"
  "timer_seq (startPolling rid st) = Suc (timer_seq st)"
  "pollingInterval (startPolling rid st) = Some (Suc (timer_seq st))"
  "notices (startPolling rid st) = notices st"
  "route_recordId (startPolling rid st) = route_recordId st"
  by (simp_all add: startPolling_def Let_def clearInterval_def split: option.splits)

lemma loadSummaries_fields [simp]:
  "record_value (loadSummaries res st) = record_value st"
  "stableVideoUrl (loadSummaries res st) = stableVideoUrl st"
  "timers (loadSummaries res st) = timers st"
  "timer_seq (loadSummaries res st) = timer_seq st"
  "pollingInterval (loadSummaries res st) = pollingInterval st"
  "localStorage (loadSummaries res st) = localStorage st"
  "notices (loadSummaries res st) = notices st"
  "route_recordId (loadSummaries res st) = route_recordId st"
  by (simp_all add: loadSummaries_def Let_def console_error_def
      split: option.splits settled.splits list.splits)

lemma getPollingFlag_cong:
  "localStorage st' = localStorage st \<Longrightarrow> getPollingFlag rid st' = getPollingFlag rid st"
  by (simp add: getPollingFlag_def)

lemma getPollingFlag_cleared [simp]: "getPollingFlag rid (setPollingFlag rid False st) = False"
  by (simp add: getPollingFlag_def setPollingFlag_def truthy_def split: option.splits)

subsection \<open>The window holds at most the timer of the handle\<close>

lemma one_timer_startPolling: "one_timer st \<Longrightarrow> one_timer (startPolling rid st)"
  by (auto simp: one_timer_def startPolling_def Let_def clearInterval_def split: option.splits if_splits)

lemma one_timer_stopPolling: "one_timer st \<Longrightarrow> one_timer (stopPolling st)"
  by (auto simp: one_timer_def stopPolling_def clearInterval_def split: option.splits if_splits)

lemma one_timer_cong:
  "timers st' = timers st \<Longrightarrow> pollingInterval st' = pollingInterval st \<Longrightarrow> timer_seq st' = timer_seq st
   \<Longrightarrow> one_timer st' = one_timer st"
  by (simp add: one_timer_def)

lemma cancelled_startPolling: "cancelled h st \<Longrightarrow> cancelled h (startPolling rid st)"
  by (auto simp: cancelled_def startPolling_def Let_def clearInterval_def split: option.splits if_splits)

lemma cancelled_stopPolling: "cancelled h st \<Longrightarrow> cancelled h (stopPolling st)"
  by (auto simp: cancelled_def stopPolling_def clearInterval_def split: option.splits if_splits)

lemma cancelled_cong:
  "timers st' = timers st \<Longrightarrow> timer_seq st' = timer_seq st \<Longrightarrow> cancelled h st' = cancelled h st"
  by (simp add: cancelled_def)

text \<open>Every operation of the view keeps both properties.\<close>

lemma one_timer_pollIfDue: "one_timer st \<Longrightarrow> one_timer (pollIfDue rid st)"
  by (simp add: pollIfDue_def one_timer_startPolling)

lemma cancelled_pollIfDue: "cancelled h st \<Longrightarrow> cancelled h (pollIfDue rid st)"
  by (simp add: pollIfDue_def cancelled_startPolling)

lemma one_timer_update [simp]:
  "one_timer (st\<lparr>loading := b\<rparr>) = one_timer st"
  "one_timer (st\<lparr>retryLoading := b\<rparr>) = one_timer st"
  "one_timer (st\<lparr>retranscribeLoading := b\<rparr>) = one_timer st"
  "one_timer (st\<lparr>record_value := r\<rparr>) = one_timer st"
  "one_timer (st\<lparr>stableVideoUrl := s\<rparr>) = one_timer st"
  "one_timer (notify l w st) = one_timer st"
  "one_timer (console_error e st) = one_timer st"
  "one_timer (setPollingFlag rid v st) = one_timer st"
  "one_timer (loadSummaries res st) = one_timer st"
  by (simp_all add: one_timer_def)

lemma cancelled_update [simp]:
  "cancelled h (st\<lparr>loading := b\<rparr>) = cancelled h st"
  "cancelled h (st\<lparr>retryLoading := b\<rparr>) = cancelled h st"
  "cancelled h (st\<lparr>retranscribeLoading := b\<rparr>) = cancelled h st"
  "cancelled h (st\<lparr>record_value := r\<rparr>) = cancelled h st"
  "cancelled h (st\<lparr>stableVideoUrl := s\<rparr>) = cancelled h st"
  "cancelled h (notify l w st) = cancelled h st"
  "cancelled h (console_error e st) = cancelled h st"
  "cancelled h (setPollingFlag rid v st) = cancelled h st"
  "cancelled h (loadSummaries res st) = cancelled h st"
  by (simp_all add: cancelled_def)

lemma one_timer_loadRecord_fallback: "one_timer st \<Longrightarrow> one_timer (loadRecord_fallback w st)"
  by (simp add: loadRecord_fallback_def Let_def one_timer_pollIfDue split: settled.splits)

lemma cancelled_loadRecord_fallback: "cancelled h st \<Longrightarrow> cancelled h (loadRecord_fallback w st)"
  by (simp add: loadRecord_fallback_def Let_def cancelled_pollIfDue split: settled.splits)

lemma one_timer_loadRecord: "one_timer st \<Longrightarrow> one_timer (loadRecord w st)"
  by (simp add: loadRecord_def Let_def one_timer_pollIfDue one_timer_loadRecord_fallback
      split: settled.splits option.splits)

lemma cancelled_loadRecord: "cancelled h st \<Longrightarrow> cancelled h (loadRecord w st)"
  by (simp add: loadRecord_def Let_def cancelled_pollIfDue cancelled_loadRecord_fallback
      split: settled.splits option.splits)

lemma one_timer_handleRetranscribe: "one_timer st \<Longrightarrow> one_timer (handleRetranscribe res st)"
  by (simp add: handleRetranscribe_def Let_def one_timer_startPolling
      split: settled.splits option.splits)


lemma one_timer_handleResummarize: "one_timer st \<Longrightarrow> one_timer (handleResummarize res st)"
  by (simp add: handleResummarize_def Let_def one_timer_startPolling
      split: settled.splits option.splits)


lemma one_timer_handleRetry: "one_timer st \<Longrightarrow> one_timer (handleRetry res st)"
  by (simp add: handleRetry_def Let_def split: settled.splits option.splits)


lemma one_timer_pollCallback: "one_timer st \<Longrightarrow> one_timer (fst (pollCallback c res st))"
  by (simp add: pollCallback_def Let_def one_timer_stopPolling
      split: settled.splits option.splits)

lemma cancelled_pollCallback: "cancelled h st \<Longrightarrow> cancelled h (fst (pollCallback c res st))"
  by (simp add: pollCallback_def Let_def cancelled_stopPolling
      split: settled.splits option.splits)

lemma one_timer_pollCallback_eq:
  "one_timer st \<Longrightarrow> pollCallback c res st = (st', f) \<Longrightarrow> one_timer st'"
  using one_timer_pollCallback [of st c res] by simp

lemma cancelled_pollCallback_eq:
  "cancelled h st \<Longrightarrow> pollCallback c res st = (st', f) \<Longrightarrow> cancelled h st'"
  using cancelled_pollCallback [of h st c res] by simp

lemma one_timer_pollSettled: "one_timer st \<Longrightarrow> one_timer (pollSettled c res w st)"
  by (auto simp: pollSettled_def one_timer_loadRecord
      dest: one_timer_pollCallback_eq split: prod.splits followup.splits)

lemma cancelled_pollSettled: "cancelled k st \<Longrightarrow> cancelled k (pollSettled c res w st)"
  by (auto simp: pollSettled_def cancelled_loadRecord
      dest: cancelled_pollCallback_eq split: prod.splits followup.splits)

lemma one_timer_pollTick: "one_timer st \<Longrightarrow> one_timer (pollTick h res w st)"
  by (simp add: pollTick_def one_timer_pollSettled split: option.splits)

lemma cancelled_pollTick: "cancelled k st \<Longrightarrow> cancelled k (pollTick h res w st)"
  by (simp add: pollTick_def cancelled_pollSettled split: option.splits)

lemma page_fire [simp]: "page (fire h b) = page b"
  by (simp add: fire_def split: option.splits)

lemma page_settle:
  "page (settle i res w b) =
     (if i < length (open_requests b) then pollSettled (open_requests b ! i) res w (page b)
      else page b)"
  by (simp add: settle_def)

lemma one_timer_step: "one_timer (page b) \<Longrightarrow> one_timer (page (step e b))"
  by (cases e) (simp_all add: one_timer_loadRecord one_timer_pollSettled page_settle
      one_timer_handleRetranscribe one_timer_handleResummarize one_timer_handleRetry
      one_timer_stopPolling)


lemma one_timer_run: "one_timer (page b) \<Longrightarrow> one_timer (page (run es b))"
  by (induction es arbitrary: b) (simp_all add: one_timer_step)



lemma one_timer_initial: "one_timer (initial_view rid storage)"
  by (simp add: one_timer_def initial_view_def)

lemma pollTick_cancelled: "cancelled h st \<Longrightarrow> pollTick h res w st = st"
  by (simp add: cancelled_def pollTick_def)

subsection \<open>More about the helpers\<close>

lemma startPolling_installs:
  "timers (startPolling rid st) (Suc (timer_seq st)) =
     Some \<lparr> recordId = rid, preserved = snapshotUrls st, delay = 2000 \<rparr>"
  by (simp add: startPolling_def Let_def clearInterval_def snapshotUrls_def setPollingFlag_def
      split: option.splits)

lemma startPolling_recordId:
  "timer_seq st = n \<Longrightarrow> map_option recordId (timers (startPolling rid st) (Suc n)) = Some rid"
  using startPolling_installs [of rid st] by simp

lemma pollCallback_no_payload:
  "payload response = None \<Longrightarrow> pollCallback c (Resolved response) st = (st, Finished)"
  by (simp add: pollCallback_def)

lemma pollCallback_rejected:
  "pollCallback c (Rejected e) st = (console_error PollingError st, Finished)"
  by (simp add: pollCallback_def)

lemma getPollingFlag_notify [simp]: "getPollingFlag rid (notify l w st) = getPollingFlag rid st"
  by (simp add: getPollingFlag_def)

lemma getPollingFlag_update [simp]:
  "getPollingFlag rid (st\<lparr>loading := b\<rparr>) = getPollingFlag rid st"
  "getPollingFlag rid (st\<lparr>retryLoading := b\<rparr>) = getPollingFlag rid st"
  "getPollingFlag rid (st\<lparr>retranscribeLoading := b\<rparr>) = getPollingFlag rid st"
  "getPollingFlag rid (st\<lparr>record_value := r\<rparr>) = getPollingFlag rid st"
  "getPollingFlag rid (st\<lparr>stableVideoUrl := s\<rparr>) = getPollingFlag rid st"
  "getPollingFlag rid (console_error e st) = getPollingFlag rid st"
  "getPollingFlag rid (loadSummaries res st) = getPollingFlag rid st"
  "getPollingFlag rid (stopPolling st) = getPollingFlag rid st"
  by (simp_all add: getPollingFlag_def)

lemma stopPolling_one_timer:
  assumes "one_timer st"
  shows "timers (stopPolling st) = Map.empty" and "pollingInterval (stopPolling st) = None"
  using assms
  by (auto simp: one_timer_def stopPolling_def clearInterval_def fun_eq_iff dom_def
      split: option.splits)

lemma stopPolling_idem: "stopPolling (stopPolling st) = stopPolling st"
  by (simp add: stopPolling_def clearInterval_def split: option.splits)

lemma stopPolling_update [simp]:
  "timers (stopPolling (st\<lparr>record_value := r, stableVideoUrl := s\<rparr>)) = timers (stopPolling st)"
  "pollingInterval (stopPolling (st\<lparr>record_value := r, stableVideoUrl := s\<rparr>)) =
     pollingInterval (stopPolling st)"
  by (simp_all add: stopPolling_def clearInterval_def split: option.splits)


lemma pollIfDue_decides:
  fixes m st :: view and d :: task_record
  defines "st' \<equiv> (pollIfDue (route_recordId m) m)\<lparr>loading := False\<rparr>"
      and "due \<equiv> status d \<in> set processingStatuses \<or> getPollingFlag (route_recordId st) st"
  assumes same: "timer_seq m = timer_seq st" "timers m = timers st"
      "pollingInterval m = pollingInterval st" "localStorage m = localStorage st"
      "route_recordId m = route_recordId st"
    and held: "record_value m = Some d"
  shows "record_value st' = Some d \<and>
         (timer_seq st' = Suc (timer_seq st)) = due \<and>
         (due \<longrightarrow> pollingInterval st' = Some (Suc (timer_seq st)) \<and>
                  map_option recordId (timers st' (Suc (timer_seq st))) = Some (route_recordId st)) \<and>
         (\<not> due \<longrightarrow> timers st' = timers st \<and> pollingInterval st' = pollingInterval st \<and>
                    timer_seq st' = timer_seq st)"
proof -
  have flag: "getPollingFlag (route_recordId st) m = getPollingFlag (route_recordId st) st"
    using same(4) by (rule getPollingFlag_cong)
  have byStatus: "shouldPollByStatus m = (status d \<in> set processingStatuses)"
    using held by (simp add: shouldPollByStatus_def)
  show ?thesis
  proof (cases due)
    case True
    then have "st' = (startPolling (route_recordId st) m)\<lparr>loading := False\<rparr>"
      unfolding st'_def due_def by (simp add: pollIfDue_def flag byStatus same)
    then show ?thesis
      using True held same startPolling_installs [of "route_recordId st" m] by simp
  next
    case False
    then have "st' = m\<lparr>loading := False\<rparr>"
      unfolding st'_def due_def by (simp add: pollIfDue_def flag byStatus same)
    then show ?thesis using False held same by simp
  qed
qed

subsection \<open>The snapshot of a session\<close>

lemma snapshot_kept_startPolling: "snapshot_kept h c st \<Longrightarrow> snapshot_kept h c (startPolling rid st)"
  by (auto simp: snapshot_kept_def startPolling_def Let_def clearInterval_def split: option.splits if_splits)

lemma snapshot_kept_stopPolling: "snapshot_kept h c st \<Longrightarrow> snapshot_kept h c (stopPolling st)"
  by (auto simp: snapshot_kept_def stopPolling_def clearInterval_def split: option.splits if_splits)

lemma snapshot_kept_update [simp]:
  "snapshot_kept h c (st\<lparr>loading := b\<rparr>) = snapshot_kept h c st"
  "snapshot_kept h c (st\<lparr>retryLoading := b\<rparr>) = snapshot_kept h c st"
  "snapshot_kept h c (st\<lparr>retranscribeLoading := b\<rparr>) = snapshot_kept h c st"
  "snapshot_kept h c (st\<lparr>record_value := r\<rparr>) = snapshot_kept h c st"
  "snapshot_kept h c (st\<lparr>stableVideoUrl := s\<rparr>) = snapshot_kept h c st"
  "snapshot_kept h c (notify l w st) = snapshot_kept h c st"
  "snapshot_kept h c (console_error e st) = snapshot_kept h c st"
  "snapshot_kept h c (setPollingFlag rid v st) = snapshot_kept h c st"
  "snapshot_kept h c (loadSummaries res st) = snapshot_kept h c st"
  by (simp_all add: snapshot_kept_def)

lemma snapshot_kept_pollIfDue: "snapshot_kept h c st \<Longrightarrow> snapshot_kept h c (pollIfDue rid st)"
  by (simp add: pollIfDue_def snapshot_kept_startPolling)

lemma snapshot_kept_loadRecord_fallback:
  "snapshot_kept h c st \<Longrightarrow> snapshot_kept h c (loadRecord_fallback w st)"
  by (simp add: loadRecord_fallback_def Let_def snapshot_kept_pollIfDue split: settled.splits)

lemma snapshot_kept_loadRecord: "snapshot_kept h c st \<Longrightarrow> snapshot_kept h c (loadRecord w st)"
  by (simp add: loadRecord_def Let_def snapshot_kept_pollIfDue snapshot_kept_loadRecord_fallback
      split: settled.splits option.splits)

lemma snapshot_kept_handleRetranscribe:
  "snapshot_kept h c st \<Longrightarrow> snapshot_kept h c (handleRetranscribe res st)"
  by (simp add: handleRetranscribe_def Let_def snapshot_kept_startPolling
      split: settled.splits option.splits)

lemma snapshot_kept_handleResummarize:
  "snapshot_kept h c st \<Longrightarrow> snapshot_kept h c (handleResummarize res st)"
  by (simp add: handleResummarize_def Let_def snapshot_kept_startPolling
      split: settled.splits option.splits)

lemma snapshot_kept_handleRetry: "snapshot_kept h c st \<Longrightarrow> snapshot_kept h c (handleRetry res st)"
  by (simp add: handleRetry_def Let_def split: settled.splits option.splits)

lemma snapshot_kept_pollCallback:
  "snapshot_kept h c st \<Longrightarrow> snapshot_kept h c (fst (pollCallback c' res st))"
  by (simp add: pollCallback_def Let_def snapshot_kept_stopPolling
      split: settled.splits option.splits)

lemma snapshot_kept_pollCallback_eq:
  "snapshot_kept h c st \<Longrightarrow> pollCallback c' res st = (st', f) \<Longrightarrow> snapshot_kept h c st'"
  using snapshot_kept_pollCallback [of h c st c' res] by simp

lemma snapshot_kept_pollSettled:
  "snapshot_kept k c st \<Longrightarrow> snapshot_kept k c (pollSettled c' res w st)"
  by (auto simp: pollSettled_def snapshot_kept_loadRecord
      dest: snapshot_kept_pollCallback_eq split: prod.splits followup.splits)

lemma snapshot_kept_pollTick: "snapshot_kept k c st \<Longrightarrow> snapshot_kept k c (pollTick h res w st)"
  by (simp add: pollTick_def snapshot_kept_pollSettled split: option.splits)

lemma snapshot_kept_step: "snapshot_kept h c (page b) \<Longrightarrow> snapshot_kept h c (page (step e b))"
  by (cases e) (simp_all add: snapshot_kept_loadRecord snapshot_kept_pollSettled page_settle
      snapshot_kept_handleRetranscribe snapshot_kept_handleResummarize snapshot_kept_handleRetry
      snapshot_kept_stopPolling)

lemma snapshot_kept_run: "snapshot_kept h c (page b) \<Longrightarrow> snapshot_kept h c (page (run es b))"
  by (induction es arbitrary: b) (simp_all add: snapshot_kept_step)

text \<open>
  As long as the timer of a session is in the window's table it carries the snapshot that
  \<^verbatim>\<open>startPolling\<close> took when the session began.
\<close>

lemma session_snapshot:
  assumes "timers (page (run es \<lparr>page = startPolling rid st, open_requests = rs\<rparr>))
             (Suc (timer_seq st)) = Some c"
  shows "c = \<lparr> recordId = rid, preserved = snapshotUrls st, delay = 2000 \<rparr>"
proof -
  let ?c = "\<lparr> recordId = rid, preserved = snapshotUrls st, delay = 2000 \<rparr>"
  have "snapshot_kept (Suc (timer_seq st)) ?c
          (page \<lparr>page = startPolling rid st, open_requests = rs\<rparr>)"
    by (simp add: snapshot_kept_def startPolling_installs)
  from snapshot_kept_run [OF this, of es] assms show ?thesis
    by (simp add: snapshot_kept_def)
qed

subsection \<open>The callback and the whole tick\<close>

lemma pollTick_record:
  assumes "timers st h = Some c" and "snd (pollCallback c res st) \<noteq> AwaitLoadRecord"
  shows "record_value (pollTick h res w st) = record_value (fst (pollCallback c res st))"
    and "stableVideoUrl (pollTick h res w st) = stableVideoUrl (fst (pollCallback c res st))"
  using assms
  by (auto simp: pollTick_def pollSettled_def split: prod.splits followup.splits)

lemma pollCallback_reloads_record:
  "snd (pollCallback c res st) = AwaitLoadRecord \<longleftrightarrow>
     (\<exists>response d r. res = Resolved response \<and> payload response = Some d \<and>
        status d = ''completed'' \<and> record_value st = Some r \<and> status r = ''transcribing'')"
  by (auto simp: pollCallback_def Let_def split: settled.splits option.splits)

subsection \<open>The sample data\<close>

lemma sample_view_fields:
  "record_value sample_view = Some sample_record"
  "stableVideoUrl sample_view = ''https://s3.example.org/v''"
  "timers sample_view = [1 \<mapsto> sample_timer]"
  "pollingInterval sample_view = Some 1"
  "timer_seq sample_view = 1"
  "notices sample_view = []"
  "route_recordId sample_view = 42"
  "localStorage sample_view = Some [getPollingKey 42 \<mapsto> ''1'']"
  by (simp_all add: sample_view_def sample_timer_def sample_record_def initial_view_def
      startPolling_def setPollingFlag_def snapshotUrls_def Let_def)

lemma sample_view_one_timer: "one_timer sample_view"
  by (simp add: one_timer_def sample_view_fields)

lemma sample_response_payload:
  "payload (sample_response s) =
     Some (sample_record\<lparr> status := s, progress := 100,
                          audio_url := Some ''https://s3.example.org/a'' \<rparr>)"
  by (simp add: payload_def sample_response_def)

lemma sample_empty_view_fields:
  "record_value sample_empty_view = None"
  "timers sample_empty_view = [1 \<mapsto> \<lparr> recordId = 42,
       preserved = \<lparr> preserved_video_url = None, preserved_audio_url = None,
                     preserved_transcription_url = None \<rparr>, delay = 2000 \<rparr>]"
  "pollingInterval sample_empty_view = Some 1"
  "timer_seq sample_empty_view = 1"
  "notices sample_empty_view = []"
  by (simp_all add: sample_empty_view_def initial_view_def
      startPolling_def setPollingFlag_def snapshotUrls_def Let_def)

lemma sample_empty_view_one_timer: "one_timer sample_empty_view"
  by (simp add: one_timer_def sample_empty_view_fields)

lemma sample_failed_view_one_timer: "one_timer sample_failed_view"
  by (simp add: one_timer_def sample_failed_view_def initial_view_def)

subsection \<open>Sticky fields\<close>

text \<open>
  C1, as the script has it.  On a tick whose fetch succeeds with a well-formed answer while
  a record is held, \<^verbatim>\<open>audio_url\<close> and \<^verbatim>\<open>transcription_url\<close> of the record are set to
  the value of the snapshot taken by \<^verbatim>\<open>startPolling\<close> when that value is non-empty, and
  a non-empty \<^verbatim>\<open>video_url\<close> of the snapshot is written to \<^verbatim>\<open>stableVideoUrl\<close>;
  \<^verbatim>\<open>video_url\<close> of the record is not written.  Where the snapshot value is empty the
  field keeps the value held before the tick: the fetched value is not read.  Hence a
  sticky field that is non-empty before the tick is non-empty after its update.  The
  snapshot is that of the timer whose callback runs; by \<open>session_snapshot\<close> it is the
  one taken when the session began.
\<close>

theorem tick_keeps_sticky_fields:
  fixes c :: interval_timer and st :: view and response :: "task_record response"
  defines "p \<equiv> preserved c"
      and "st' \<equiv> fst (pollCallback c (Resolved response) st)"
  assumes held: "record_value st = Some r" and ok: "payload response = Some d"
  shows "\<exists>r'. record_value st' = Some r' \<and>
           audio_url r' =
             (if truthy (preserved_audio_url p) then preserved_audio_url p else audio_url r) \<and>
           transcription_url r' =
             (if truthy (preserved_transcription_url p) then preserved_transcription_url p
              else transcription_url r) \<and>
           video_url r' = video_url r \<and>
           stableVideoUrl st' =
             (if truthy (preserved_video_url p) then the (preserved_video_url p)
              else stableVideoUrl st) \<and>
           (truthy (audio_url r) \<longrightarrow> truthy (audio_url r')) \<and>
           (truthy (transcription_url r) \<longrightarrow> truthy (transcription_url r')) \<and>
           (stableVideoUrl st \<noteq> [] \<longrightarrow> stableVideoUrl st' \<noteq> [])"
  using held ok unfolding st'_def p_def
  by (simp add: pollCallback_def Let_def reconcile_def truthy_def split: option.splits)

text \<open>
  The sample view holds a record without an audio locator and its snapshot has none
  either; the video locator of the snapshot is written to \<^verbatim>\<open>stableVideoUrl\<close>.
\<close>

theorem tick_keeps_sticky_fields_witness:
  "record_value sample_view = Some sample_record \<and>
   (\<exists>r'. record_value (fst (pollCallback sample_timer (Resolved (sample_response ''summarizing'')) sample_view)) = Some r' \<and>
      audio_url r' = None \<and> transcription_url r' = None \<and>
      video_url r' = Some ''https://s3.example.org/v'') \<and>
   stableVideoUrl (fst (pollCallback sample_timer (Resolved (sample_response ''summarizing'')) sample_view))
     = ''https://s3.example.org/v''"
proof -
  have held: "record_value sample_view = Some sample_record" by (simp add: sample_view_fields)
  note ok = sample_response_payload [of "''summarizing''"]
  from tick_keeps_sticky_fields [where c = sample_timer, OF held ok] held
  show ?thesis
    by (auto simp: sample_timer_def sample_record_def truthy_def sample_view_fields)
qed

text \<open>
  The statement that an empty snapshot value makes the field fall back to the fetched
  value fails: the answer carries an audio locator, the snapshot of the running timer has
  none, and after the tick the held record still has none.
\<close>

theorem sticky_fallback_counterexample:
  "record_value sample_view = Some sample_record \<and>
   timers sample_view 1 = Some sample_timer \<and>
   preserved_audio_url (preserved sample_timer) = None \<and>
   map_option audio_url (payload (sample_response ''summarizing''))
     = Some (Some ''https://s3.example.org/a'') \<and>
   map_option audio_url
     (record_value (pollTick 1 (Resolved (sample_response ''summarizing'')) sample_answers sample_view))
     = Some None"
  by (simp add: sample_view_fields sample_response_payload pollTick_def pollSettled_def
      pollCallback_def Let_def
      reconcile_def truthy_def sample_timer_def sample_record_def)

subsection \<open>Volatile fields\<close>

text \<open>
  C2.  On a tick whose fetch succeeds with a well-formed answer while a record is held,
  \<^verbatim>\<open>status\<close>, \<^verbatim>\<open>progress\<close>, \<^verbatim>\<open>summary\<close> and \<^verbatim>\<open>transcription\<close> of the held record
  are the fetched values, whatever the record held before and whether or not the fetched
  value is empty.  The state is the one the callback leaves; by \<open>pollTick_record\<close> it
  is the record of the whole tick unless the callback goes on to await \<^verbatim>\<open>loadRecord\<close>,
  which fetches the record anew.
\<close>

theorem tick_overwrites_volatile_fields:
  fixes c :: interval_timer and st :: view and response :: "task_record response"
  defines "st' \<equiv> fst (pollCallback c (Resolved response) st)"
  assumes held: "record_value st = Some r" and ok: "payload response = Some d"
  shows "\<exists>r'. record_value st' = Some r' \<and> status r' = status d \<and> progress r' = progress d \<and>
           summary r' = summary d \<and> transcription r' = transcription d"
  using held ok unfolding st'_def
  by (simp add: pollCallback_def Let_def reconcile_def)

theorem tick_overwrites_volatile_fields_witness:
  "record_value sample_view = Some sample_record \<and> status sample_record = ''transcribing'' \<and>
   (\<exists>r'. record_value (fst (pollCallback sample_timer (Resolved (sample_response ''summarizing'')) sample_view)) = Some r' \<and>
      status r' = ''summarizing'' \<and> progress r' = 100 \<and> summary r' = None \<and> transcription r' = None)"
proof -
  have held: "record_value sample_view = Some sample_record" by (simp add: sample_view_fields)
  note ok = sample_response_payload [of "''summarizing''"]
  from tick_overwrites_volatile_fields [where c = sample_timer, OF held ok] held
  show ?thesis by (auto simp: sample_record_def)
qed

subsection \<open>Terminal stop\<close>

lemma summaries_startPolling [simp]: "summaries (startPolling rid st) = summaries st"
  by (simp add: startPolling_def Let_def clearInterval_def setPollingFlag_def split: option.splits)

lemma summaries_pollIfDue [simp]: "summaries (pollIfDue rid st) = summaries st"
  by (simp add: pollIfDue_def)

lemma record_value_pollIfDue [simp]: "record_value (pollIfDue rid st) = record_value st"
  by (simp add: pollIfDue_def)

lemma notices_pollIfDue [simp]: "notices (pollIfDue rid st) = notices st"
  by (simp add: pollIfDue_def)










subsection \<open>The decision at mount\<close>

text \<open>
  C4.  When \<^verbatim>\<open>loadRecord\<close> has fetched the record (from \<^verbatim>\<open>refreshUrls\<close>, or from
  \<^verbatim>\<open>getHistoryDetail\<close> after \<^verbatim>\<open>refreshUrls\<close> was rejected or brought no data), it
  starts the poller if
  and only if the fetched status is one of the five processing statuses or the flag of the
  task reads true: exactly then the window issues a new timer, which polls the task of the
  route and whose handle is in \<^verbatim>\<open>pollingInterval\<close>; otherwise timers and handle are as
  before.
\<close>

theorem mount_starts_poller_iff_due:
  fixes w :: answers and st :: view and d :: task_record
  defines "st' \<equiv> loadRecord w st"
      and "due \<equiv> status d \<in> set processingStatuses \<or> getPollingFlag (route_recordId st) st"
  assumes fetched:
      "refreshUrls_answer w = Resolved response \<or>
       (getHistoryDetail_answer w = Resolved response \<and>
        (refreshUrls_answer w = Rejected e \<or>
         refreshUrls_answer w = Resolved \<lparr>success = True, data = None\<rparr>))"
    and ok: "success response" "data response = Some d"
  shows "record_value st' = Some d \<and>
         (timer_seq st' = Suc (timer_seq st)) = due \<and>
         (due \<longrightarrow> pollingInterval st' = Some (Suc (timer_seq st)) \<and>
                  map_option recordId (timers st' (Suc (timer_seq st))) = Some (route_recordId st)) \<and>
         (\<not> due \<longrightarrow> timers st' = timers st \<and> pollingInterval st' = pollingInterval st \<and>
                    timer_seq st' = timer_seq st)"
proof -
  from fetched consider
      (first) "refreshUrls_answer w = Resolved response"
    | (rejected) "refreshUrls_answer w = Rejected e" "getHistoryDetail_answer w = Resolved response"
    | (empty) "refreshUrls_answer w = Resolved \<lparr>success = True, data = None\<rparr>"
        "getHistoryDetail_answer w = Resolved response"
    by blast
  then show ?thesis
  proof cases
    case first
    define m where "m = loadSummaries (getTaskSummaries_answer w)
      (st\<lparr> loading := True, record_value := Some d,
           stableVideoUrl := (case video_url d of None \<Rightarrow> stableVideoUrl (st\<lparr>loading := True\<rparr>)
                              | Some v \<Rightarrow> if v \<noteq> [] then v
                                          else stableVideoUrl (st\<lparr>loading := True\<rparr>)) \<rparr>)"
    have "st' = (pollIfDue (route_recordId m) m)\<lparr>loading := False\<rparr>"
      unfolding st'_def m_def using first ok by (simp add: loadRecord_def Let_def)
    moreover have "timer_seq m = timer_seq st" "timers m = timers st"
        "pollingInterval m = pollingInterval st" "localStorage m = localStorage st"
        "route_recordId m = route_recordId st" "record_value m = Some d"
      unfolding m_def by simp_all
    ultimately show ?thesis
      unfolding due_def using pollIfDue_decides [of m st d] by simp
  next
    case rejected
    define m where "m = loadSummaries (getTaskSummaries_answer w)
      ((console_error LoadRecordError (st\<lparr>loading := True\<rparr>))\<lparr>record_value := Some d\<rparr>)"
    have "st' = (pollIfDue (route_recordId m) m)\<lparr>loading := False\<rparr>"
      unfolding st'_def m_def using rejected ok
      by (simp add: loadRecord_def loadRecord_fallback_def Let_def)
    moreover have "timer_seq m = timer_seq st" "timers m = timers st"
        "pollingInterval m = pollingInterval st" "localStorage m = localStorage st"
        "route_recordId m = route_recordId st" "record_value m = Some d"
      unfolding m_def by simp_all
    ultimately show ?thesis
      unfolding due_def using pollIfDue_decides [of m st d] by simp
  next
    case empty
    define m where "m = loadSummaries (getTaskSummaries_answer w)
      ((console_error LoadRecordError (st\<lparr>loading := True, record_value := None\<rparr>))
         \<lparr>record_value := Some d\<rparr>)"
    have "st' = (pollIfDue (route_recordId m) m)\<lparr>loading := False\<rparr>"
      unfolding st'_def m_def using empty ok
      by (simp add: loadRecord_def loadRecord_fallback_def Let_def)
    moreover have "timer_seq m = timer_seq st" "timers m = timers st"
        "pollingInterval m = pollingInterval st" "localStorage m = localStorage st"
        "route_recordId m = route_recordId st" "record_value m = Some d"
      unfolding m_def by simp_all
    ultimately show ?thesis
      unfolding due_def using pollIfDue_decides [of m st d] by simp
  qed
qed

theorem mount_starts_poller_iff_due_witness:
  "refreshUrls_answer sample_answers = Resolved (sample_response ''completed'') \<and>
   \<not> getPollingFlag 42 (initial_view 42 (Some Map.empty)) \<and>
   timer_seq (loadRecord sample_answers (initial_view 42 (Some Map.empty))) = 0 \<and>
   pollingInterval (loadRecord sample_answers (initial_view 42 (Some Map.empty))) = None \<and>
   pollingInterval (loadRecord sample_answers (initial_view 42 (Some [getPollingKey 42 \<mapsto> ''1'']))) = Some 1 \<and>
   pollingInterval
     (loadRecord (sample_answers\<lparr>refreshUrls_answer := Resolved (sample_response ''summarizing'')\<rparr>)
        (initial_view 42 (Some Map.empty))) = Some 1"
proof -
  let ?e = "\<lparr>error_detail = None, error_message = None\<rparr>"
  let ?w = "sample_answers\<lparr>refreshUrls_answer := Resolved (sample_response ''summarizing'')\<rparr>"
  have r1: "refreshUrls_answer sample_answers = Resolved (sample_response ''completed'') \<or>
     (getHistoryDetail_answer sample_answers = Resolved (sample_response ''completed'') \<and>
      (refreshUrls_answer sample_answers = Rejected ?e \<or>
       refreshUrls_answer sample_answers = Resolved \<lparr>success = True, data = None\<rparr>))"
    by (simp add: sample_answers_def)
  have r2: "refreshUrls_answer ?w = Resolved (sample_response ''summarizing'') \<or>
     (getHistoryDetail_answer ?w = Resolved (sample_response ''summarizing'') \<and>
      (refreshUrls_answer ?w = Rejected ?e \<or>
       refreshUrls_answer ?w = Resolved \<lparr>success = True, data = None\<rparr>))"
    by simp
  have s: "success (sample_response x)" for x by (simp add: sample_response_def)
  have d: "data (sample_response x) = Some (sample_record\<lparr> status := x, progress := 100,
                          audio_url := Some ''https://s3.example.org/a'' \<rparr>)" for x
    by (simp add: sample_response_def)
  from mount_starts_poller_iff_due [OF r1 s d, of "initial_view 42 (Some Map.empty)"]
       mount_starts_poller_iff_due [OF r1 s d, of "initial_view 42 (Some [getPollingKey 42 \<mapsto> ''1''])"]
       mount_starts_poller_iff_due [OF r2 s d, of "initial_view 42 (Some Map.empty)"]
       r1
  show ?thesis
    by (simp add: initial_view_def getPollingFlag_def truthy_def processingStatuses_def
        sample_answers_def)
qed

subsection \<open>The action handlers and the poller\<close>

lemma handleRetry_never_polls:
  "timers (handleRetry res st) = timers st \<and>
   pollingInterval (handleRetry res st) = pollingInterval st \<and>
   timer_seq (handleRetry res st) = timer_seq st \<and>
   localStorage (handleRetry res st) = localStorage st"
  by (simp add: handleRetry_def Let_def split: option.splits settled.splits)

lemma handleRetranscribe_polls:
  assumes "record_value st = Some r" and "success response"
  shows "pollingInterval (handleRetranscribe (Resolved response) st) = Some (Suc (timer_seq st))"
    and "map_option recordId (timers (handleRetranscribe (Resolved response) st) (Suc (timer_seq st)))
           = Some (route_recordId st)"
  using assms
  by (simp_all add: handleRetranscribe_def Let_def startPolling_recordId)

lemma handleResummarize_polls:
  assumes "record_value st = Some r" and "success response"
  shows "pollingInterval (handleResummarize (Resolved response) st) = Some (Suc (timer_seq st))"
    and "map_option recordId (timers (handleResummarize (Resolved response) st) (Suc (timer_seq st)))
           = Some (route_recordId st)"
  using assms
  by (simp_all add: handleResummarize_def Let_def startPolling_recordId)

text \<open>
  C5.  After a successful request \<^verbatim>\<open>handleRetranscribe\<close> and \<^verbatim>\<open>handleResummarize\<close>
  start the poller, and \<^verbatim>\<open>handleRetry\<close> does not: on a view that holds a failed task
  and has no poller, a retry answered with the task in status \<^verbatim>\<open>pending\<close> replaces the
  record, shows the success notice and leaves the window without a timer, where each of
  the other two handlers has timer 1 running.
\<close>

theorem handleRetry_starts_no_poller:
  "record_value sample_failed_view \<noteq> None \<and>
   payload (sample_response ''pending'') \<noteq> None \<and>
   map_option status (record_value (handleRetry (Resolved (sample_response ''pending'')) sample_failed_view))
     = Some ''pending'' \<and>
   notices (handleRetry (Resolved (sample_response ''pending'')) sample_failed_view)
     = [(Success, RetrySubmitted)] \<and>
   pollingInterval (handleRetry (Resolved (sample_response ''pending'')) sample_failed_view) = None \<and>
   timers (handleRetry (Resolved (sample_response ''pending'')) sample_failed_view) = Map.empty \<and>
   pollingInterval (handleRetranscribe (Resolved (sample_response ''pending'')) sample_failed_view)
     = Some 1 \<and>
   pollingInterval (handleResummarize (Resolved (sample_response ''pending'')) sample_failed_view)
     = Some 1"
  by (simp add: handleRetry_def handleRetranscribe_def handleResummarize_def Let_def
      sample_failed_view_def initial_view_def payload_def sample_response_def notify_def
      startPolling_def setPollingFlag_def)

subsection \<open>The wording of the terminal notice\<close>

text \<open>
  C6.  On a tick whose answer has a terminal status, the one notice that is added is
  worded by the status the view held before the callback wrote the fetched one: the
  transcription is reported when that status was \<^verbatim>\<open>transcribing\<close>, the summary
  otherwise, also when no record was held and the previous status is the empty string.
\<close>

theorem terminal_notice_by_previous_status:
  fixes c :: interval_timer and st :: view and response :: "task_record response"
  defines "st' \<equiv> fst (pollCallback c (Resolved response) st)"
      and "previousStatus \<equiv> (case record_value st of None \<Rightarrow> [] | Some r \<Rightarrow> status r)"
  assumes ok: "payload response = Some d" and fin: "terminal (status d)"
  shows "notices st' = notices st @
           [if status d = ''completed''
            then (Success, if previousStatus = ''transcribing'' then TranscribeDone else SummaryDone)
            else (Error, if previousStatus = ''transcribing'' then TranscribeFailed else SummaryFailed)]"
  using ok fin unfolding st'_def previousStatus_def
  by (simp add: pollCallback_def Let_def terminal_def split: option.splits)

theorem terminal_notice_by_previous_status_witness:
  "record_value sample_view = Some sample_record \<and> status sample_record = ''transcribing'' \<and>
   notices (fst (pollCallback sample_timer (Resolved (sample_response ''completed'')) sample_view))
     = [(Success, TranscribeDone)] \<and>
   notices (fst (pollCallback sample_timer (Resolved (sample_response ''failed'')) sample_empty_view))
     = [(Error, SummaryFailed)]"
proof -
  have fin: "terminal (status (sample_record\<lparr> status := x, progress := 100,
      audio_url := Some ''https://s3.example.org/a'' \<rparr>))" if "x = ''completed'' \<or> x = ''failed''" for x
    using that by (auto simp: terminal_def)
  from terminal_notice_by_previous_status [where c = sample_timer and st = sample_view,
         OF sample_response_payload [of "''completed''"] fin]
       terminal_notice_by_previous_status [where c = sample_timer and st = sample_empty_view,
         OF sample_response_payload [of "''failed''"] fin]
  show ?thesis
    by (simp add: sample_view_fields sample_empty_view_fields sample_record_def)
qed

subsection \<open>At most one timer\<close>

text \<open>
  C7.  Two calls of \<^verbatim>\<open>startPolling\<close> in succession leave exactly one timer in the
  window, the one whose handle is in \<^verbatim>\<open>pollingInterval\<close>: each call has cancelled the
  timer it found before it installed its own.  \<^verbatim>\<open>stopPolling\<close> leaves no timer and no
  handle, and a second call changes nothing.
\<close>

theorem start_twice_one_timer:
  fixes st :: view and a b :: int
  defines "st1 \<equiv> startPolling a st"
      and "st2 \<equiv> startPolling b (startPolling a st)"
  assumes inv: "one_timer st"
  shows "dom (timers st2) = {Suc (Suc (timer_seq st))} \<and>
         pollingInterval st2 = Some (Suc (Suc (timer_seq st))) \<and>
         card (dom (timers st2)) = 1 \<and>
         timers st1 (Suc (timer_seq st)) \<noteq> None \<and> timers st2 (Suc (timer_seq st)) = None \<and>
         (\<forall>h. pollingInterval st = Some h \<longrightarrow> timers st1 h = None) \<and>
         stopPolling (stopPolling st) = stopPolling st \<and>
         timers (stopPolling st) = Map.empty \<and> pollingInterval (stopPolling st) = None"
proof -
  have i1: "one_timer st1" unfolding st1_def by (rule one_timer_startPolling [OF inv])
  have i2: "one_timer st2" unfolding st2_def
    by (rule one_timer_startPolling [OF one_timer_startPolling [OF inv]])
  have p2: "pollingInterval st2 = Some (Suc (Suc (timer_seq st)))"
    unfolding st2_def by simp
  with i2 have d2: "dom (timers st2) = {Suc (Suc (timer_seq st))}"
    by (simp add: one_timer_def)
  then have "Suc (timer_seq st) \<notin> dom (timers st2)" by simp
  then have gone: "timers st2 (Suc (timer_seq st)) = None"
    by (simp add: domIff)
  have there: "timers st1 (Suc (timer_seq st)) \<noteq> None"
    unfolding st1_def by (simp add: startPolling_installs)
  have "pollingInterval st1 = Some (Suc (timer_seq st))" unfolding st1_def by simp
  with i1 have d1: "dom (timers st1) = {Suc (timer_seq st)}" by (simp add: one_timer_def)
  have prior: "\<forall>h. pollingInterval st = Some h \<longrightarrow> timers st1 h = None"
  proof (intro allI impI)
    fix h assume "pollingInterval st = Some h"
    with inv have "h \<le> timer_seq st" by (auto simp: one_timer_def)
    with d1 have "h \<notin> dom (timers st1)" by simp
    then show "timers st1 h = None" by (simp add: domIff)
  qed
  from p2 d2 gone there prior stopPolling_idem [of st] stopPolling_one_timer [OF inv]
  show ?thesis by simp
qed

theorem start_twice_one_timer_witness:
  "one_timer sample_view \<and>
   dom (timers (startPolling 42 (startPolling 42 sample_view))) = {3} \<and>
   pollingInterval (startPolling 42 (startPolling 42 sample_view)) = Some 3 \<and>
   card (dom (timers (startPolling 42 (startPolling 42 sample_view)))) = 1 \<and>
   timers (startPolling 42 sample_view) 1 = None \<and>
   timers (stopPolling sample_view) = Map.empty \<and>
   stopPolling (stopPolling sample_view) = stopPolling sample_view"
proof -
  from start_twice_one_timer [OF sample_view_one_timer, of 42 42] sample_view_one_timer
  show ?thesis by (simp add: sample_view_fields eval_nat_numeral)
qed

subsection \<open>Failed and malformed fetches\<close>

text \<open>
  C8.  When the fetch of a tick is rejected, or its answer lacks \<^verbatim>\<open>success\<close> or
  \<^verbatim>\<open>data\<close>, the held record and \<^verbatim>\<open>stableVideoUrl\<close> are unchanged, no notice is
  shown, the flag is untouched, and the window's timers, each with its delay, and the
  handle are as before: the timer goes on ticking every 2000 milliseconds.
\<close>

theorem failed_fetch_changes_nothing:
  fixes st :: view and res :: "task_record settled" and h :: nat and w :: answers
  defines "st' \<equiv> pollTick h res w st"
  assumes bad: "res = Rejected e \<or>
                (res = Resolved response \<and> (\<not> success response \<or> data response = None))"
  shows "record_value st' = record_value st \<and> stableVideoUrl st' = stableVideoUrl st \<and>
         notices st' = notices st \<and> localStorage st' = localStorage st \<and>
         timers st' = timers st \<and> pollingInterval st' = pollingInterval st \<and>
         timer_seq st' = timer_seq st"
proof (cases "timers st h")
  case None
  then show ?thesis unfolding st'_def by (simp add: pollTick_def)
next
  case (Some c)
  from bad consider "res = Rejected e" | "res = Resolved response" "payload response = None"
    by (auto simp: payload_def)
  then show ?thesis
  proof cases
    case 1
    then show ?thesis unfolding st'_def using Some
      by (simp add: pollTick_def pollSettled_def pollCallback_rejected)
  next
    case 2
    then show ?thesis unfolding st'_def using Some
      by (simp add: pollTick_def pollSettled_def pollCallback_no_payload)
  qed
qed

theorem failed_fetch_changes_nothing_witness:
  "record_value (pollTick 1 (Rejected \<lparr>error_detail = None, error_message = Some ''Network Error''\<rparr>)
     sample_answers sample_view) = Some sample_record \<and>
   notices (pollTick 1 (Rejected \<lparr>error_detail = None, error_message = Some ''Network Error''\<rparr>)
     sample_answers sample_view) = [] \<and>
   timers (pollTick 1 (Rejected \<lparr>error_detail = None, error_message = Some ''Network Error''\<rparr>)
     sample_answers sample_view) 1 = Some sample_timer \<and>
   record_value (pollTick 1 (Resolved \<lparr>success = False, data = Some sample_record\<rparr>)
     sample_answers sample_view) = Some sample_record \<and>
   timers (pollTick 1 (Resolved \<lparr>success = True, data = None\<rparr>)
     sample_answers sample_view) 1 = Some sample_timer"
proof -
  let ?e = "\<lparr>error_detail = None, error_message = Some ''Network Error''\<rparr>"
  have a: "Rejected ?e = Rejected ?e \<or>
     ((Rejected ?e :: task_record settled) = Resolved r \<and> (\<not> success r \<or> data r = None))" for r
    by simp
  have b: "Resolved \<lparr>success = False, data = Some sample_record\<rparr> = Rejected e \<or>
     (Resolved \<lparr>success = False, data = Some sample_record\<rparr>
        = Resolved \<lparr>success = False, data = Some sample_record\<rparr> \<and>
      (\<not> success \<lparr>success = False, data = Some sample_record\<rparr> \<or>
       data \<lparr>success = False, data = Some sample_record\<rparr> = None))" for e
    by simp
  have c: "Resolved \<lparr>success = True, data = None\<rparr> = Rejected e \<or>
     (Resolved \<lparr>success = True, data = None :: task_record option\<rparr>
        = Resolved \<lparr>success = True, data = None\<rparr> \<and>
      (\<not> success \<lparr>success = True, data = None :: task_record option\<rparr> \<or>
       data \<lparr>success = True, data = None :: task_record option\<rparr> = None))" for e
    by simp
  from failed_fetch_changes_nothing [OF a, of 1 sample_answers sample_view]
       failed_fetch_changes_nothing [OF b, of 1 sample_answers sample_view]
       failed_fetch_changes_nothing [OF c, of 1 sample_answers sample_view]
  show ?thesis by (simp add: sample_view_fields)
qed

subsection \<open>Idempotence of the update\<close>

text \<open>
  C9.  For a fixed fetched record and a fixed snapshot, applying the update of a tick to
  its own result changes nothing.
\<close>

theorem reconcile_idempotent:
  "reconcile (reconcile a b p) b p = reconcile a b p"
  by (simp add: reconcile_def Let_def split: option.splits)

subsection \<open>A terminal tick without a record\<close>

text \<open>
  C10.  When no record is held and the answer of a tick has a terminal status, the whole
  tick, the awaited \<^verbatim>\<open>loadSummaries\<close> included, leaves no timer and no handle, the flag
  of the task reads false, exactly one notice has been added, worded for the summary, and
  nothing of the view but timers, handle, storage and notices has changed: no record is
  held afterwards and no field was written.
\<close>

theorem terminal_tick_without_record:
  fixes c :: interval_timer and st :: view and response :: "task_record response"
    and h :: nat and w :: answers
  defines "st' \<equiv> pollTick h (Resolved response) w st"
  assumes inv: "one_timer st" and active: "timers st h = Some c"
    and none: "record_value st = None"
    and ok: "payload response = Some d" and fin: "terminal (status d)"
  shows "timers st' = Map.empty \<and> pollingInterval st' = None \<and>
         \<not> getPollingFlag (recordId c) st' \<and>
         notices st' = notices st @
           [if status d = ''completed'' then (Success, SummaryDone) else (Error, SummaryFailed)] \<and>
         record_value st' = None \<and>
         st'\<lparr> timers := timers st, pollingInterval := pollingInterval st,
               localStorage := localStorage st, notices := notices st \<rparr> = st"
proof -
  define m where "m = notify (if status d = ''completed'' then Success else Error)
      (if status d = ''completed'' then SummaryDone else SummaryFailed)
      (setPollingFlag (recordId c) False (stopPolling st))"
  have "pollCallback c (Resolved response) st =
          (m, if status d = ''completed'' then AwaitLoadSummaries else Finished)"
    unfolding m_def using none ok fin by (simp add: pollCallback_def Let_def terminal_def)
  then have eq: "st' = m"
    unfolding st'_def using active
    by (simp add: pollTick_def pollSettled_def loadSummaries_def none m_def)
  have tp: "timers m = Map.empty" "pollingInterval m = None"
    unfolding m_def using stopPolling_one_timer [OF inv] by simp_all
  have flag: "\<not> getPollingFlag (recordId c) m" unfolding m_def by simp
  have rest: "m\<lparr> timers := timers st, pollingInterval := pollingInterval st,
               localStorage := localStorage st, notices := notices st \<rparr> = st"
    unfolding m_def
    by (simp add: notify_def setPollingFlag_def stopPolling_def clearInterval_def
        split: option.splits)
  have "notices m = notices st @
           [if status d = ''completed'' then (Success, SummaryDone) else (Error, SummaryFailed)]"
       "record_value m = None"
    unfolding m_def using none by simp_all
  with tp flag rest show ?thesis unfolding eq by simp
qed

theorem terminal_tick_without_record_witness:
  "one_timer sample_empty_view \<and> record_value sample_empty_view = None \<and>
   timers (pollTick 1 (Resolved (sample_response ''completed'')) sample_answers sample_empty_view) = Map.empty \<and>
   pollingInterval (pollTick 1 (Resolved (sample_response ''completed'')) sample_answers sample_empty_view) = None \<and>
   \<not> getPollingFlag 42 (pollTick 1 (Resolved (sample_response ''completed'')) sample_answers sample_empty_view) \<and>
   notices (pollTick 1 (Resolved (sample_response ''completed'')) sample_answers sample_empty_view)
     = [(Success, SummaryDone)] \<and>
   record_value (pollTick 1 (Resolved (sample_response ''completed'')) sample_answers sample_empty_view) = None"
proof -
  have active: "timers sample_empty_view 1 = Some \<lparr> recordId = 42,
       preserved = \<lparr> preserved_video_url = None, preserved_audio_url = None,
                     preserved_transcription_url = None \<rparr>, delay = 2000 \<rparr>"
    by (simp add: sample_empty_view_fields)
  have none: "record_value sample_empty_view = None" by (simp add: sample_empty_view_fields)
  note ok = sample_response_payload [of "''completed''"]
  have fin: "terminal (status (sample_record\<lparr> status := ''completed'', progress := 100,
      audio_url := Some ''https://s3.example.org/a'' \<rparr>))" by (simp add: terminal_def)
  from terminal_tick_without_record [OF sample_empty_view_one_timer active none ok fin]
    sample_empty_view_one_timer none
  show ?thesis by (simp add: sample_empty_view_fields)
qed

end
